theory Spec2Isabelle
  imports Complex_Main "HOL-Library.Log_Nat"
begin

section \<open>Data model\<close>

text \<open>
  The trading bot of \<^verbatim>\<open>src/app\<close>: \<^verbatim>\<open>bot.py\<close> (price extraction, the
  moving-average signal, the orchestrator) and \<^verbatim>\<open>capital_client.py\<close> (the session
  protocol).

  Exceptions. Every exception the modelled code can raise is a value of \<open>error\<close>, and a
  function that can raise returns \<open>error + 'a\<close> with \<open>Inl\<close> for the exception.
  \<^item> \<open>ValueError\<close>: \<^verbatim>\<open>ValueError("No price data returned from Capital.com API.")\<close>,
    the specification's \<^verbatim>\<open>NoPriceDataError\<close>;
  \<^item> \<open>RuntimeError\<close>: \<^verbatim>\<open>RuntimeError("Missing session tokens from Capital.com response.")\<close>,
    the specification's \<^verbatim>\<open>AuthenticationError\<close>;
  \<^item> \<open>HTTPError\<close>: what \<^verbatim>\<open>response.raise_for_status()\<close> raises, with the status,
    the specification's \<^verbatim>\<open>VenueRequestError\<close>;
  \<^item> \<open>StatisticsError\<close>: what \<^verbatim>\<open>statistics.mean\<close> raises on an empty list;
  \<^item> \<open>OverflowError\<close>: what Python raises when an \<^verbatim>\<open>int\<close> is too large to become a
    \<^verbatim>\<open>float\<close>, in a conversion or in a true division;
  \<^item> \<open>AttributeError\<close>: \<^verbatim>\<open>.get\<close> on \<^verbatim>\<open>None\<close>;
  \<^item> \<open>TypeError\<close>: iteration over \<^verbatim>\<open>None\<close>;
  \<^item> \<open>TransportError\<close>: a failure of the transport itself (connection, timeout).
\<close>

datatype error =
    ValueError
  | RuntimeError
  | HTTPError nat
  | StatisticsError
  | OverflowError
  | AttributeError
  | TypeError
  | TransportError

text \<open>
  Numbers. A Python \<^verbatim>\<open>float\<close> is an IEEE 754 binary64 value: a finite one is given by
  the rational it denotes, beside the two infinities and NaN. The sign of a zero is not
  kept: nothing the program computes depends on it. A Python \<^verbatim>\<open>int\<close> is unbounded.
  A JSON number is decoded to one or the other.
\<close>

datatype double = Finite rat | PosInf | NegInf | NaN

datatype pynum = PyInt int | PyFloat double

text \<open>
  An entry of a JSON object that the source reads with a default: the key can be absent,
  hold \<^verbatim>\<open>null\<close>, or hold a value.
\<close>

datatype 'a entry = Absent | Null | Present 'a

text \<open>
  A candle is a JSON object read through \<^verbatim>\<open>candle.get("bid")\<close>,
  \<^verbatim>\<open>candle.get("ask")\<close> and \<^verbatim>\<open>candle.get("close", {})\<close>. A bid or ask is \<open>None\<close>
  when the key is absent or holds \<^verbatim>\<open>null\<close> (\<^verbatim>\<open>.get\<close> returns \<^verbatim>\<open>None\<close> for both)
  and \<open>Some v\<close> when it holds the number \<open>v\<close>. The nested \<^verbatim>\<open>close\<close> object has the
  same two fields, so a candle extends the record of a quote by the \<^verbatim>\<open>close\<close> entry.
  Payloads whose fields hold other JSON values (a string or a boolean for a price, a list
  for \<^verbatim>\<open>close\<close>) are not candles of this type.
\<close>

record quote =
  bid :: "pynum option"
  ask :: "pynum option"

record candle = quote +
  close :: "quote entry"

text \<open>The payload of the prices endpoint, read through \<^verbatim>\<open>price_payload.get("prices", [])\<close>.\<close>

record price_payload =
  prices :: "candle list entry"

text \<open>\<^verbatim>\<open>TradeDecision\<close> (frozen dataclass). The field \<^verbatim>\<open>size\<close> is \<open>size_dec\<close> here.\<close>

record TradeDecision =
  direction :: string
  size_dec :: rat
  reason :: string

text \<open>\<^verbatim>\<open>CapitalSession\<close> (frozen dataclass).\<close>

record CapitalSession =
  cst :: string
  security_token :: string

section \<open>Python arithmetic on \<^verbatim>\<open>int\<close> and \<^verbatim>\<open>float\<close>\<close>

text \<open>
  Rounding to binary64, to nearest with ties to even. \<open>floor_log2 x\<close> is the exponent
  \<open>e\<close> with \<open>2\<^sup>e \<le> x < 2\<^sup>e\<^sup>+\<^sup>1\<close> for \<open>x > 0\<close>; \<open>ulp_exp x\<close> is the exponent of the
  spacing of the doubles around \<open>x\<close>: 52 below that of \<open>x\<close>, and never below -1074, the
  spacing of the subnormal numbers. \<open>round_magnitude\<close> rounds a magnitude to a multiple
  of that spacing; a result of \<open>2\<^sup>1\<^sup>0\<^sup>2\<^sup>4\<close> or more is out of range.
\<close>

definition round_half_even :: "rat \<Rightarrow> int" where
  "round_half_even x =
     (let f = \<lfloor>x\<rfloor>; d = x - of_int f
      in if d < 1 / 2 then f else if 1 / 2 < d then f + 1 else if even f then f else f + 1)"

definition floor_log2 :: "rat \<Rightarrow> int" where
  "floor_log2 x = (if 1 \<le> x then bitlen \<lfloor>x\<rfloor> - 1 else - bitlen (\<lceil>1 / x\<rceil> - 1))"

definition ulp_exp :: "rat \<Rightarrow> int" where
  "ulp_exp x = max (floor_log2 x) (- 1022) - 52"

definition round_magnitude :: "rat \<Rightarrow> rat" where
  "round_magnitude x =
     (if x = 0 then 0
      else of_int (round_half_even (x / 2 powi ulp_exp x)) * 2 powi ulp_exp x)"

text \<open>The double nearest to a rational; an infinity when the rounded value is out of range.\<close>

definition round_double :: "rat \<Rightarrow> double" where
  "round_double x =
     (let y = round_magnitude \<bar>x\<bar>
      in if 2 ^ 1024 \<le> y then (if 0 < x then PosInf else NegInf)
         else Finite (if 0 \<le> x then y else - y))"

text \<open>
  \<^verbatim>\<open>float(n)\<close> for an \<^verbatim>\<open>int\<close>, as the mixed operations apply it: the nearest
  double, or \<^verbatim>\<open>OverflowError\<close> ("int too large to convert to float").
\<close>

definition float_of_int :: "int \<Rightarrow> error + double" where
  "float_of_int n =
     (case round_double (of_int n) of Finite q \<Rightarrow> Inr (Finite q) | _ \<Rightarrow> Inl OverflowError)"

text \<open>
  Addition of two floats: IEEE 754, no exception; a sum out of range is an infinity,
  and the sum of the two opposite infinities is NaN.
\<close>

fun double_add :: "double \<Rightarrow> double \<Rightarrow> double" where
  "double_add NaN _ = NaN"
| "double_add _ NaN = NaN"
| "double_add PosInf NegInf = NaN"
| "double_add NegInf PosInf = NaN"
| "double_add PosInf _ = PosInf"
| "double_add _ PosInf = PosInf"
| "double_add NegInf _ = NegInf"
| "double_add _ NegInf = NegInf"
| "double_add (Finite a) (Finite b) = round_double (a + b)"

text \<open>
  \<^verbatim>\<open>x + y\<close>: exact on two ints; with a float on either side the int is converted
  first (which can raise) and the floats are added.
\<close>

fun py_add :: "pynum \<Rightarrow> pynum \<Rightarrow> error + pynum" where
  "py_add (PyInt m) (PyInt n) = Inr (PyInt (m + n))"
| "py_add (PyInt m) (PyFloat y) =
     (case float_of_int m of Inl e \<Rightarrow> Inl e | Inr x \<Rightarrow> Inr (PyFloat (double_add x y)))"
| "py_add (PyFloat x) (PyInt n) =
     (case float_of_int n of Inl e \<Rightarrow> Inl e | Inr y \<Rightarrow> Inr (PyFloat (double_add x y)))"
| "py_add (PyFloat x) (PyFloat y) = Inr (PyFloat (double_add x y))"

text \<open>
  \<^verbatim>\<open>x / 2\<close>. On an int this is true division: the exact quotient rounded to the nearest
  double, or \<^verbatim>\<open>OverflowError\<close> ("integer division result too large for a float").
  On a float it is the IEEE division by \<open>2.0\<close>, which cannot leave the range.
\<close>

fun py_div2 :: "pynum \<Rightarrow> error + double" where
  "py_div2 (PyInt n) =
     (case round_double (of_int n / 2) of Finite q \<Rightarrow> Inr (Finite q) | _ \<Rightarrow> Inl OverflowError)"
| "py_div2 (PyFloat (Finite a)) = Inr (round_double (a / 2))"
| "py_div2 (PyFloat d) = Inr d"

text \<open>Truth value of a number: false for the int 0 and for the float zero only.\<close>

fun py_truthy :: "pynum \<Rightarrow> bool" where
  "py_truthy (PyInt n) = (n \<noteq> 0)"
| "py_truthy (PyFloat (Finite q)) = (q \<noteq> 0)"
| "py_truthy (PyFloat _) = True"

text \<open>\<^verbatim>\<open>x < y\<close> on floats: false whenever a side is NaN.\<close>

fun double_less :: "double \<Rightarrow> double \<Rightarrow> bool" where
  "double_less (Finite a) (Finite b) = (a < b)"
| "double_less (Finite a) PosInf = True"
| "double_less NegInf (Finite b) = True"
| "double_less NegInf PosInf = True"
| "double_less _ _ = False"

fun is_finite :: "double \<Rightarrow> bool" where
  "is_finite (Finite _) = True"
| "is_finite _ = False"

fun value_of :: "double \<Rightarrow> rat" where
  "value_of (Finite q) = q"
| "value_of _ = 0"

text \<open>
  \<^verbatim>\<open>statistics.mean\<close> on a list of floats. It sums exactly, as fractions, divides by the
  length and converts the quotient to the nearest double. When the list holds a value
  that is not finite, it returns the float sum of those values alone (an infinity or
  NaN). \<open>mean_value\<close> is the value for a list that is not empty; \<open>mean\<close> adds the
  exception on the empty list.
\<close>

definition mean_value :: "double list \<Rightarrow> double" where
  "mean_value xs =
     (if list_all is_finite xs
      then round_double (sum_list (map value_of xs) / of_nat (length xs))
      else foldl double_add (Finite 0) (filter (\<lambda>x. \<not> is_finite x) xs))"

definition mean :: "double list \<Rightarrow> error + double" where
  "mean xs = (if xs = [] then Inl StatisticsError else Inr (mean_value xs))"

section \<open>Price extraction (\<^verbatim>\<open>bot.py\<close>, \<^verbatim>\<open>_extract_mid_prices\<close>)\<close>

text \<open>
  Python's \<^verbatim>\<open>a or b\<close> on what \<^verbatim>\<open>.get\<close> returns: \<open>a\<close> when \<open>a\<close> is truthy (a number
  that is not zero), otherwise \<open>b\<close>, whatever \<open>b\<close> is. The right operand is evaluated
  only in the second case, so only then can its exception come out.
\<close>

definition py_or :: "pynum option \<Rightarrow> error + pynum option \<Rightarrow> error + pynum option" where
  "py_or a b = (case a of None \<Rightarrow> b | Some x \<Rightarrow> (if py_truthy x then Inr (Some x) else b))"

text \<open>
  \<^verbatim>\<open>candle.get("close", {}).get("bid")\<close> and the same for \<^verbatim>\<open>"ask"\<close>: the empty
  dictionary when the key is absent, and \<^verbatim>\<open>None.get\<close> when it holds \<^verbatim>\<open>null\<close>.
\<close>

definition close_bid :: "candle \<Rightarrow> error + pynum option" where
  "close_bid c =
     (case close c of Absent \<Rightarrow> Inr None | Null \<Rightarrow> Inl AttributeError | Present q \<Rightarrow> Inr (bid q))"

definition close_ask :: "candle \<Rightarrow> error + pynum option" where
  "close_ask c =
     (case close c of Absent \<Rightarrow> Inr None | Null \<Rightarrow> Inl AttributeError | Present q \<Rightarrow> Inr (ask q))"

text \<open>Lines 18 and 19: the two resolved sides of one candle.\<close>

definition resolve_bid :: "candle \<Rightarrow> error + pynum option" where
  "resolve_bid c = py_or (bid c) (close_bid c)"

definition resolve_ask :: "candle \<Rightarrow> error + pynum option" where
  "resolve_ask c = py_or (ask c) (close_ask c)"

text \<open>Line 21: \<^verbatim>\<open>(bid + ask) / 2\<close>.\<close>

definition py_mid :: "pynum \<Rightarrow> pynum \<Rightarrow> error + double" where
  "py_mid b a = (case py_add b a of Inl e \<Rightarrow> Inl e | Inr s \<Rightarrow> py_div2 s)"

text \<open>
  Lines 18 to 21 for one candle: an exception, nothing to append (\<open>None\<close>), or the
  midpoint to append.
\<close>

definition candle_mid :: "candle \<Rightarrow> error + double option" where
  "candle_mid c =
     (case resolve_bid c of
        Inl e \<Rightarrow> Inl e
      | Inr b \<Rightarrow>
          (case resolve_ask c of
             Inl e \<Rightarrow> Inl e
           | Inr a \<Rightarrow>
               (case (b, a) of
                  (Some bv, Some av) \<Rightarrow>
                    (case py_mid bv av of Inl e \<Rightarrow> Inl e | Inr m \<Rightarrow> Inr (Some m))
                | _ \<Rightarrow> Inr None)))"

text \<open>
  The \<^verbatim>\<open>for\<close> loop of lines 17 to 21, with the list \<^verbatim>\<open>prices\<close> built so far as
  accumulator. It stops at the first exception.
\<close>

fun mid_prices_loop :: "candle list \<Rightarrow> double list \<Rightarrow> error + double list" where
  "mid_prices_loop [] acc = Inr acc"
| "mid_prices_loop (c # cs) acc =
     (case candle_mid c of
        Inl e \<Rightarrow> Inl e
      | Inr None \<Rightarrow> mid_prices_loop cs acc
      | Inr (Some m) \<Rightarrow> mid_prices_loop cs (acc @ [m]))"

text \<open>
  \<^verbatim>\<open>price_payload.get("prices", [])\<close>: the empty list when the key is absent, \<open>None\<close>
  when it holds \<^verbatim>\<open>null\<close>.
\<close>

definition get_prices :: "price_payload \<Rightarrow> candle list option" where
  "get_prices price_payload =
     (case prices price_payload of Absent \<Rightarrow> Some [] | Null \<Rightarrow> None | Present cs \<Rightarrow> Some cs)"

definition extract_mid_prices :: "price_payload \<Rightarrow> error + double list" where
  "extract_mid_prices price_payload =
     (case get_prices price_payload of
        None \<Rightarrow> Inl TypeError
      | Some cs \<Rightarrow>
          (case mid_prices_loop cs [] of
             Inl e \<Rightarrow> Inl e
           | Inr ps \<Rightarrow> if ps = [] then Inl ValueError else Inr ps))"

section \<open>The signal (\<^verbatim>\<open>bot.py\<close>, \<^verbatim>\<open>decide_trade\<close>)\<close>

text \<open>
  The slices \<^verbatim>\<open>mids[-5:]\<close> and \<^verbatim>\<open>mids[-20:]\<close>: the last 5 (20) elements, or the
  whole list when it is shorter. The subtraction on \<open>nat\<close> stops at 0, which is what
  the slice does.
\<close>

definition short_window :: "'a list \<Rightarrow> 'a list" where
  "short_window mids = drop (length mids - 5) mids"

definition long_window :: "'a list \<Rightarrow> 'a list" where
  "long_window mids = drop (length mids - 20) mids"

text \<open>
  Lines 29 to 37 of \<^verbatim>\<open>decide_trade\<close>, on the midpoint series. \<^verbatim>\<open>short_avg > long_avg\<close>
  is \<open>double_less long_avg short_avg\<close>.
\<close>

definition decide_mids :: "double list \<Rightarrow> rat \<Rightarrow> error + TradeDecision" where
  "decide_mids mids trade_size =
     (case mean (short_window mids) of
        Inl e \<Rightarrow> Inl e
      | Inr short_avg \<Rightarrow>
          (case mean (long_window mids) of
             Inl e \<Rightarrow> Inl e
           | Inr long_avg \<Rightarrow>
               if double_less long_avg short_avg then
                 Inr \<lparr>direction = ''BUY'', size_dec = trade_size, reason = ''short_avg > long_avg''\<rparr>
               else if double_less short_avg long_avg then
                 Inr \<lparr>direction = ''SELL'', size_dec = trade_size, reason = ''short_avg < long_avg''\<rparr>
               else
                 Inr \<lparr>direction = ''NONE'', size_dec = 0, reason = ''no crossover''\<rparr>))"

definition decide_trade :: "price_payload \<Rightarrow> rat \<Rightarrow> error + TradeDecision" where
  "decide_trade price_payload trade_size =
     (case extract_mid_prices price_payload of
        Inl e \<Rightarrow> Inl e
      | Inr mids \<Rightarrow> decide_mids mids trade_size)"

section \<open>The session protocol (\<^verbatim>\<open>capital_client.py\<close>)\<close>

text \<open>
  What \<^verbatim>\<open>requests\<close> hands back: the status, the header lookup
  \<^verbatim>\<open>response.headers.get\<close> (\<open>None\<close> for a header that is absent) and the decoded
  body \<^verbatim>\<open>response.json()\<close>.
\<close>

record 'b http_response =
  status_code :: nat
  headers :: "string \<rightharpoonup> string"
  json :: 'b

text \<open>\<^verbatim>\<open>response.raise_for_status()\<close>: an exception for a 4xx or 5xx status.\<close>

definition raise_for_status :: "'b http_response \<Rightarrow> error + unit" where
  "raise_for_status response =
     (if 400 \<le> status_code response \<and> status_code response < 600
      then Inl (HTTPError (status_code response)) else Inr ())"

text \<open>
  Python's \<^verbatim>\<open>not s\<close> on the result of a header lookup: true for \<open>None\<close> and for the
  empty string.
\<close>

definition py_not :: "string option \<Rightarrow> bool" where
  "py_not s = (case s of None \<Rightarrow> True | Some v \<Rightarrow> v = [])"

text \<open>
  \<^verbatim>\<open>CapitalClient.create_session\<close>, from the outcome of \<^verbatim>\<open>requests.post\<close> on: the
  transport either raised or returned a response.
\<close>

definition create_session :: "error + 'b http_response \<Rightarrow> error + CapitalSession" where
  "create_session posted =
     (case posted of
        Inl e \<Rightarrow> Inl e
      | Inr response \<Rightarrow>
          (case raise_for_status response of
             Inl e \<Rightarrow> Inl e
           | Inr _ \<Rightarrow>
               (let cst_h = headers response ''CST'';
                    security_token_h = headers response ''X-SECURITY-TOKEN''
                in if py_not cst_h \<or> py_not security_token_h then Inl RuntimeError
                   else (case (cst_h, security_token_h) of
                           (Some c, Some t) \<Rightarrow> Inr \<lparr>cst = c, security_token = t\<rparr>
                         | _ \<Rightarrow> Inl RuntimeError))))"

section \<open>The orchestrator (\<^verbatim>\<open>bot.py\<close>, \<^verbatim>\<open>execute_trade\<close>)\<close>

text \<open>
  \<^verbatim>\<open>execute_trade\<close> uses its \<^verbatim>\<open>client\<close> argument through two methods only, so a
  client is the pair of them; each call returns the venue's answer or raises. \<open>'r\<close> is
  the type of the venue's answer to an order.
\<close>

record 'r client =
  fetch_prices :: "CapitalSession \<Rightarrow> string \<Rightarrow> error + price_payload"
  place_order :: "CapitalSession \<Rightarrow> string \<Rightarrow> string \<Rightarrow> rat \<Rightarrow> error + 'r"

text \<open>The calls made on the client, in order, with their arguments.\<close>

datatype call =
    FetchPrices CapitalSession string
  | PlaceOrder CapitalSession string string rat

fun is_place_order :: "call \<Rightarrow> bool" where
  "is_place_order (PlaceOrder _ _ _ _) = True"
| "is_place_order (FetchPrices _ _) = False"

definition place_order_count :: "call list \<Rightarrow> nat" where
  "place_order_count calls = length (filter is_place_order calls)"

text \<open>The values of the dictionary that \<^verbatim>\<open>execute_trade\<close> returns.\<close>

datatype 'r pyvalue = Str string | Num rat | Obj 'r

text \<open>
  \<^verbatim>\<open>execute_trade\<close> returns the dictionary (or the exception) and the calls it made on
  the client.
\<close>

definition execute_trade ::
  "'r client \<Rightarrow> CapitalSession \<Rightarrow> string \<Rightarrow> rat \<Rightarrow> bool
     \<Rightarrow> (error + (string \<times> 'r pyvalue) list) \<times> call list" where
  "execute_trade client session epic trade_size dry_run =
     (case fetch_prices client session epic of
        Inl e \<Rightarrow> (Inl e, [FetchPrices session epic])
      | Inr payload \<Rightarrow>
          (case decide_trade payload trade_size of
             Inl e \<Rightarrow> (Inl e, [FetchPrices session epic])
           | Inr decision \<Rightarrow>
               if direction decision = ''NONE'' then
                 (Inr [(''status'', Str ''skipped''), (''reason'', Str (reason decision))],
                  [FetchPrices session epic])
               else if dry_run then
                 (Inr [(''status'', Str ''dry_run''),
                       (''direction'', Str (direction decision)),
                       (''size'', Num (size_dec decision)),
                       (''reason'', Str (reason decision))],
                  [FetchPrices session epic])
               else
                 (case place_order client session epic (direction decision) (size_dec decision) of
                    Inl e \<Rightarrow>
                      (Inl e,
                       [FetchPrices session epic,
                        PlaceOrder session epic (direction decision) (size_dec decision)])
                  | Inr result \<Rightarrow>
                      (Inr [(''status'', Str ''placed''),
                            (''direction'', Str (direction decision)),
                            (''result'', Obj result)],
                       [FetchPrices session epic,
                        PlaceOrder session epic (direction decision) (size_dec decision)]))))"

section \<open>Notions of the specification and example inputs\<close>

text \<open>
  The specification speaks of the most recent \<open>n\<close> points of a series (all of them when
  the series is shorter) and of the arithmetic mean. Both are written here from its
  words, to be compared with the slices and with \<^verbatim>\<open>statistics.mean\<close> of the source.
\<close>

definition spec_last_points :: "nat \<Rightarrow> 'a list \<Rightarrow> 'a list" where
  "spec_last_points n xs = rev (take n (rev xs))"

definition spec_arithmetic_mean :: "rat list \<Rightarrow> rat" where
  "spec_arithmetic_mean xs = sum_list xs / of_nat (length xs)"

text \<open>
  The specification resolves a side of a candle "by direct field else nested-close
  field": the direct value when the candle has one, otherwise the value under
  \<^verbatim>\<open>close\<close> when there is one.
\<close>

definition spec_bid :: "candle \<Rightarrow> pynum option" where
  "spec_bid c =
     (case bid c of
        Some v \<Rightarrow> Some v
      | None \<Rightarrow> (case close c of Present q \<Rightarrow> bid q | _ \<Rightarrow> None))"

definition spec_ask :: "candle \<Rightarrow> pynum option" where
  "spec_ask c =
     (case ask c of
        Some v \<Rightarrow> Some v
      | None \<Rightarrow> (case close c of Present q \<Rightarrow> ask q | _ \<Rightarrow> None))"

text \<open>No direct bid or ask of the candle is a zero.\<close>

definition direct_nonzero :: "candle \<Rightarrow> bool" where
  "direct_nonzero c =
     ((case bid c of None \<Rightarrow> True | Some v \<Rightarrow> py_truthy v)
      \<and> (case ask c of None \<Rightarrow> True | Some v \<Rightarrow> py_truthy v))"


text \<open>The candle \<^verbatim>\<open>{"bid": b, "ask": a}\<close> with two JSON integers.\<close>

definition flat :: "int \<Rightarrow> int \<Rightarrow> candle" where
  "flat b a = \<lparr>bid = Some (PyInt b), ask = Some (PyInt a), close = Absent\<rparr>"

text \<open>
  Scenario A of the specification:
  \<^verbatim>\<open>{"prices": [{"bid":1,"ask":1}]*20 + [{"bid":10,"ask":10}]*5}\<close>.
\<close>

definition scenario_A :: price_payload where
  "scenario_A = \<lparr>prices = Present (replicate 20 (flat 1 1) @ replicate 5 (flat 10 10))\<rparr>"

text \<open>
  Three series of six points: one ending high, one starting high, and one whose last
  point is one unit in the last place above the others.
\<close>

definition rising :: "double list" where
  "rising = [Finite 1, Finite 1, Finite 1, Finite 1, Finite 1, Finite 7]"

definition falling :: "double list" where
  "falling = [Finite 7, Finite 1, Finite 1, Finite 1, Finite 1, Finite 1]"

definition near_tie :: "double list" where
  "near_tie =
     [Finite (2 ^ 52), Finite (2 ^ 52), Finite (2 ^ 52), Finite (2 ^ 52), Finite (2 ^ 52),
      Finite (2 ^ 52 + 1)]"

definition rising_payload :: price_payload where
  "rising_payload =
     \<lparr>prices = Present [flat 1 1, flat 1 1, flat 1 1, flat 1 1, flat 1 1, flat 7 7]\<rparr>"

text \<open>A client double: it always serves \<open>rising_payload\<close> and accepts every order.\<close>

definition demo_session :: CapitalSession where
  "demo_session = \<lparr>cst = ''c'', security_token = ''t''\<rparr>"

definition demo_client :: "string client" where
  "demo_client =
     \<lparr>fetch_prices = (\<lambda>session epic. Inr rising_payload),
      place_order = (\<lambda>session epic direction size. Inr ''dealReference'')\<rparr>"

text \<open>Two login responses with status 200: one with both tokens, one with an empty \<^verbatim>\<open>CST\<close>.\<close>

definition login_response :: "unit http_response" where
  "login_response =
     \<lparr>status_code = 200,
      headers = [''CST'' \<mapsto> ''abc'', ''X-SECURITY-TOKEN'' \<mapsto> ''xyz''],
      json = ()\<rparr>"

definition empty_cst_response :: "unit http_response" where
  "empty_cst_response =
     \<lparr>status_code = 200,
      headers = [''CST'' \<mapsto> [], ''X-SECURITY-TOKEN'' \<mapsto> ''xyz''],
      json = ()\<rparr>"

section \<open>Facts about rounding\<close>

lemma rhe_of_int: "round_half_even (of_int n) = n"
  by (simp add: round_half_even_def)

lemma rhe_floor: "\<lfloor>x\<rfloor> \<le> round_half_even x \<and> round_half_even x \<le> \<lfloor>x\<rfloor> + 1"
  by (simp add: round_half_even_def Let_def)

lemma rhe_mono:
  assumes "x \<le> y"
  shows "round_half_even x \<le> round_half_even y"
proof (cases "\<lfloor>x\<rfloor> = \<lfloor>y\<rfloor>")
  case True
  with assms show ?thesis by (auto simp: round_half_even_def Let_def)
next
  case False
  with assms have "\<lfloor>x\<rfloor> + 1 \<le> \<lfloor>y\<rfloor>" using floor_mono [OF assms] by linarith
  with rhe_floor [of x] rhe_floor [of y] show ?thesis by linarith
qed

lemma floor_log2_bounds:
  assumes "0 < x"
  shows "2 powi (floor_log2 x) \<le> x \<and> x < 2 powi (floor_log2 x + 1)"
proof (cases "1 \<le> x")
  case True
  then have p: "0 < \<lfloor>x\<rfloor>" by linarith
  define k where "k = bitlen \<lfloor>x\<rfloor>"
  from bitlen_bounds [OF p] have b: "2 ^ nat (k - 1) \<le> \<lfloor>x\<rfloor>" "\<lfloor>x\<rfloor> < 2 ^ nat k"
    by (simp_all add: k_def)
  have kpos: "0 < k" using p bitlen_nonneg [of "\<lfloor>x\<rfloor>"] bitlen_eq_zero_iff [of "\<lfloor>x\<rfloor>"]
    by (simp add: k_def)
  have "(2::rat) ^ nat (k - 1) = of_int (2 ^ nat (k - 1))" by simp
  also have "\<dots> \<le> of_int \<lfloor>x\<rfloor>" using b(1) by (simp only: of_int_le_iff)
  also have "\<dots> \<le> x" by simp
  finally have lo: "(2::rat) ^ nat (k - 1) \<le> x" .
  have "\<lfloor>x\<rfloor> + 1 \<le> 2 ^ nat k" using b(2) by simp
  then have "(of_int (\<lfloor>x\<rfloor> + 1) :: rat) \<le> of_int (2 ^ nat k)" by (simp only: of_int_le_iff)
  moreover have "x < of_int (\<lfloor>x\<rfloor> + 1)" by linarith
  ultimately have hi: "x < 2 ^ nat k" by simp
  have e: "floor_log2 x = k - 1" using True by (simp add: floor_log2_def k_def)
  show ?thesis using lo hi kpos by (simp add: e power_int_def)
next
  case False
  with assms have x1: "x < 1" by simp
  define n where "n = \<lceil>1 / x\<rceil>"
  have inv: "1 < 1 / x" using assms x1 by simp
  then have n2: "2 \<le> n" unfolding n_def by linarith
  then have p: "0 < n - 1" by simp
  define k where "k = bitlen (n - 1)"
  from bitlen_bounds [OF p] have b: "2 ^ nat (k - 1) \<le> n - 1" "n - 1 < 2 ^ nat k"
    by (simp_all add: k_def)
  have kpos: "0 < k" using p bitlen_nonneg [of "n - 1"] bitlen_eq_zero_iff [of "n - 1"]
    by (simp add: k_def)
  have e: "floor_log2 x = - k" using False by (simp add: floor_log2_def k_def n_def)
  have "n \<le> 2 ^ nat k" using b(2) by simp
  then have "(of_int n :: rat) \<le> 2 ^ nat k" by simp
  moreover have "1 / x \<le> of_int n" unfolding n_def by linarith
  ultimately have "1 / x \<le> 2 ^ nat k" by linarith
  then have lo: "1 / 2 ^ nat k \<le> x" using assms by (simp add: field_simps)
  have "(2 :: rat) ^ nat (k - 1) \<le> of_int (n - 1)"
    using b(1) by (metis of_int_le_iff of_int_numeral of_int_power)
  moreover have "of_int (n - 1) < 1 / x" unfolding n_def by linarith
  ultimately have "2 ^ nat (k - 1) < 1 / x" by linarith
  then have hi: "x < 1 / 2 ^ nat (k - 1)" using assms by (simp add: field_simps)
  have "2 powi (- k) = (1::rat) / 2 ^ nat k" using kpos by (simp add: power_int_def field_simps)
  moreover have "2 powi (- k + 1) = (1::rat) / 2 ^ nat (k - 1)"
  proof -
    have "- k + 1 = - (k - 1)" by simp
    moreover have "0 \<le> k - 1" using kpos by simp
    ultimately show ?thesis by (simp add: power_int_def field_simps nat_diff_distrib)
  qed
  ultimately show ?thesis using lo hi by (simp add: e)
qed


lemma powi2_less_cancel:
  assumes "(2::rat) powi a < 2 powi b"
  shows "a < b"
proof (rule ccontr)
  assume "\<not> a < b"
  then have "b \<le> a" by simp
  then have "(2::rat) powi b \<le> 2 powi a" by (intro power_int_increasing) simp_all
  with assms show False by simp
qed

lemma floor_log2_unique:
  assumes "2 powi e \<le> x" and "x < 2 powi (e + 1)"
  shows "floor_log2 x = e"
proof -
  have "(0::rat) < 2 powi e" by simp
  with assms(1) have pos: "0 < x" by linarith
  from floor_log2_bounds [OF pos] assms
  have "(2::rat) powi (floor_log2 x) < 2 powi (e + 1)" and "(2::rat) powi e < 2 powi (floor_log2 x + 1)"
    by linarith+
  then have "floor_log2 x < e + 1" and "e < floor_log2 x + 1"
    using powi2_less_cancel by blast+
  then show ?thesis by simp
qed

lemma floor_log2_mono:
  assumes "0 < x" and "x \<le> y"
  shows "floor_log2 x \<le> floor_log2 y"
proof -
  from assms have "0 < y" by simp
  from floor_log2_bounds [OF assms(1)] floor_log2_bounds [OF this] assms(2)
  have "(2::rat) powi (floor_log2 x) < 2 powi (floor_log2 y + 1)" by linarith
  then have "floor_log2 x < floor_log2 y + 1" by (rule powi2_less_cancel)
  then show ?thesis by simp
qed

lemma round_magnitude_ulp:
  "x \<noteq> 0 \<Longrightarrow> round_magnitude x = of_int (round_half_even (x / 2 powi ulp_exp x)) * 2 powi ulp_exp x"
  by (simp add: round_magnitude_def)

lemma ulp_exp_mono: "0 < x \<Longrightarrow> x \<le> y \<Longrightarrow> ulp_exp x \<le> ulp_exp y"
  using floor_log2_mono [of x y] by (simp add: ulp_exp_def)

lemma scaled_upper:
  assumes "0 < x"
  shows "x / 2 powi ulp_exp x < 2 ^ 53"
proof -
  have "floor_log2 x + 1 \<le> ulp_exp x + 53" by (simp add: ulp_exp_def)
  then have "(2::rat) powi (floor_log2 x + 1) \<le> 2 powi (ulp_exp x + 53)"
    by (intro power_int_increasing) simp_all
  with floor_log2_bounds [OF assms] have "x < 2 powi (ulp_exp x + 53)" by linarith
  also have "\<dots> = 2 powi ulp_exp x * 2 ^ 53" by (simp add: power_int_add)
  finally show ?thesis by (simp add: field_simps)
qed

lemma scaled_lower:
  assumes "0 < x" and "- 1022 \<le> floor_log2 x"
  shows "2 ^ 52 \<le> x / 2 powi ulp_exp x"
proof -
  from assms(2) have u: "floor_log2 x = ulp_exp x + 52" by (simp add: ulp_exp_def)
  have "(2::rat) powi (ulp_exp x + 52) = 2 powi ulp_exp x * 2 ^ 52" by (simp add: power_int_add)
  with floor_log2_bounds [OF assms(1)] u have "2 powi ulp_exp x * 2 ^ 52 \<le> x" by simp
  then show ?thesis by (simp add: field_simps)
qed

lemma round_magnitude_upper:
  assumes "0 < x"
  shows "round_magnitude x \<le> 2 powi (ulp_exp x + 53)"
proof -
  have "x / 2 powi ulp_exp x \<le> of_int (2 ^ 53)" using scaled_upper [OF assms] by simp
  from rhe_mono [OF this] have "round_half_even (x / 2 powi ulp_exp x) \<le> 2 ^ 53"
    by (simp only: rhe_of_int)
  then have "(of_int (round_half_even (x / 2 powi ulp_exp x)) :: rat) \<le> 2 ^ 53" by simp
  then have "of_int (round_half_even (x / 2 powi ulp_exp x)) * 2 powi ulp_exp x
               \<le> 2 ^ 53 * (2::rat) powi ulp_exp x"
    by (intro mult_right_mono) simp_all
  then show ?thesis using assms by (simp add: round_magnitude_ulp power_int_add mult.commute)
qed

lemma round_magnitude_lower:
  assumes "0 < x" and "- 1022 \<le> floor_log2 x"
  shows "2 powi (ulp_exp x + 52) \<le> round_magnitude x"
proof -
  have "of_int (2 ^ 52) \<le> x / 2 powi ulp_exp x" using scaled_lower [OF assms] by simp
  from rhe_mono [OF this] have "2 ^ 52 \<le> round_half_even (x / 2 powi ulp_exp x)"
    by (simp only: rhe_of_int)
  then have "(2::rat) ^ 52 \<le> of_int (round_half_even (x / 2 powi ulp_exp x))" by simp
  then have "2 ^ 52 * (2::rat) powi ulp_exp x
               \<le> of_int (round_half_even (x / 2 powi ulp_exp x)) * 2 powi ulp_exp x"
    by (intro mult_right_mono) simp_all
  then show ?thesis using assms by (simp add: round_magnitude_ulp power_int_add mult.commute)
qed

lemma round_magnitude_nonneg: "0 \<le> x \<Longrightarrow> 0 \<le> round_magnitude x"
proof (cases "x = 0")
  case True
  then show ?thesis by (simp add: round_magnitude_def)
next
  case False
  assume "0 \<le> x"
  with False have "0 \<le> x / 2 powi ulp_exp x" by simp
  then have "(of_int 0 :: rat) \<le> x / 2 powi ulp_exp x" by simp
  from rhe_mono [OF this] have "0 \<le> round_half_even (x / 2 powi ulp_exp x)"
    by (simp only: rhe_of_int)
  with False show ?thesis by (simp add: round_magnitude_ulp)
qed

lemma round_magnitude_mono:
  assumes "0 \<le> x" and "x \<le> y"
  shows "round_magnitude x \<le> round_magnitude y"
proof (cases "x = 0")
  case True
  with assms round_magnitude_nonneg [of y] show ?thesis by (simp add: round_magnitude_def)
next
  case False
  with assms have px: "0 < x" and py: "0 < y" by simp_all
  then have y0: "y \<noteq> 0" by simp
  show ?thesis
  proof (cases "ulp_exp x = ulp_exp y")
    case True
    from assms(2) have "x / 2 powi ulp_exp y \<le> y / 2 powi ulp_exp y"
      by (simp add: divide_right_mono)
    from rhe_mono [OF this]
    have "(of_int (round_half_even (x / 2 powi ulp_exp y)) :: rat)
            \<le> of_int (round_half_even (y / 2 powi ulp_exp y))" by simp
    then have "of_int (round_half_even (x / 2 powi ulp_exp y)) * (2::rat) powi ulp_exp y
            \<le> of_int (round_half_even (y / 2 powi ulp_exp y)) * 2 powi ulp_exp y"
      by (intro mult_right_mono) simp_all
    with True False y0 show ?thesis by (simp add: round_magnitude_ulp)
  next
    case False
    with ulp_exp_mono [OF px assms(2)] have lt: "ulp_exp x < ulp_exp y" by simp
    then have big: "- 1022 \<le> floor_log2 y" by (simp add: ulp_exp_def max_def split: if_splits)
    from lt have "ulp_exp x + 53 \<le> ulp_exp y + 52" by simp
    then have "(2::rat) powi (ulp_exp x + 53) \<le> 2 powi (ulp_exp y + 52)"
      by (intro power_int_increasing) simp_all
    with round_magnitude_upper [OF px] round_magnitude_lower [OF py big]
    show ?thesis by linarith
  qed
qed

lemma round_magnitude_exact:
  assumes "0 < m" and "m < 2 ^ 53" and "- 1074 \<le> u"
  shows "round_magnitude (of_int m * 2 powi u) = of_int m * 2 powi u"
proof -
  define x :: rat where "x = of_int m * 2 powi u"
  have px: "0 < x" using assms(1) by (simp add: x_def)
  have "x < 2 ^ 53 * 2 powi u"
    unfolding x_def using assms(2) by (intro mult_strict_right_mono) simp_all
  also have "\<dots> = 2 powi (u + 53)" by (simp add: power_int_add mult.commute)
  finally have "(2::rat) powi (floor_log2 x) < 2 powi (u + 53)"
    using floor_log2_bounds [OF px] by linarith
  then have "floor_log2 x < u + 53" by (rule powi2_less_cancel)
  with assms(3) have le: "ulp_exp x \<le> u" by (simp add: ulp_exp_def)
  define k where "k = nat (u - ulp_exp x)"
  have u: "u = ulp_exp x + int k" using le by (simp add: k_def)
  have "(2::rat) powi u = 2 powi ulp_exp x * 2 powi int k"
    by (subst u) (simp add: power_int_add)
  then have xk: "x = of_int m * 2 ^ k * 2 powi ulp_exp x"
    by (simp add: x_def mult_ac)
  have "x / 2 powi ulp_exp x = of_int m * 2 ^ k"
    by (subst xk) simp
  also have "\<dots> = of_int (m * 2 ^ k)" by simp
  finally have "round_half_even (x / 2 powi ulp_exp x) = m * 2 ^ k"
    by (simp only: rhe_of_int)
  then have "round_magnitude x = of_int (m * 2 ^ k) * 2 powi ulp_exp x"
    using px by (simp add: round_magnitude_ulp)
  also have "\<dots> = x" by (subst (2) xk) simp
  finally show ?thesis by (simp add: x_def)
qed


lemma round_magnitude_zero [simp]: "round_magnitude 0 = 0"
  by (simp add: round_magnitude_def)

lemma floor_numeral_div: "\<lfloor>numeral a / numeral b :: rat\<rfloor> = numeral a div numeral b"
  by (metis floor_divide_of_int_eq of_int_numeral)

lemma floor_one_div: "\<lfloor>1 / numeral b :: rat\<rfloor> = 1 div numeral b"
  by (metis floor_divide_of_int_eq of_int_1 of_int_numeral)

lemmas round_eval = round_half_even_def Let_def floor_numeral_div floor_one_div

lemma round_double_at:
  assumes "2 powi e \<le> \<bar>x\<bar>" and "\<bar>x\<bar> < 2 powi (e + 1)"
  shows "round_double x =
     (let u = max e (- 1022) - 52;
          y = of_int (round_half_even (\<bar>x\<bar> / 2 powi u)) * 2 powi u
      in if 2 ^ 1024 \<le> y then (if 0 < x then PosInf else NegInf)
         else Finite (if 0 \<le> x then y else - y))"
proof -
  have "(0::rat) < 2 powi e" by simp
  with assms(1) have "\<bar>x\<bar> \<noteq> 0" by linarith
  with floor_log2_unique [OF assms] show ?thesis
    by (simp add: round_double_def round_magnitude_def ulp_exp_def Let_def)
qed

lemma round_double_exact:
  assumes "\<bar>m\<bar> < 2 ^ 53" and "- 1074 \<le> u" and "\<bar>of_int m * 2 powi u\<bar> < (2::rat) ^ 1024"
  shows "round_double (of_int m * 2 powi u) = Finite (of_int m * 2 powi u)"
proof (cases "m = 0")
  case True
  then show ?thesis by (simp add: round_double_def round_magnitude_def)
next
  case False
  define x :: rat where "x = of_int m * 2 powi u"
  have ax: "\<bar>x\<bar> = of_int \<bar>m\<bar> * 2 powi u" by (simp add: x_def abs_mult)
  from False have "0 < \<bar>m\<bar>" by simp
  from round_magnitude_exact [OF this assms(1) assms(2)]
  have r: "round_magnitude \<bar>x\<bar> = \<bar>x\<bar>" by (simp only: ax)
  from assms(3) have lt: "\<not> 2 ^ 1024 \<le> \<bar>x\<bar>" by (simp add: x_def)
  have "round_double x = Finite x"
    using lt by (simp add: round_double_def r Let_def)
  then show ?thesis by (simp add: x_def)
qed

lemma round_double_int:
  "\<bar>n\<bar> < 2 ^ 53 \<Longrightarrow> round_double (of_int n) = Finite (of_int n)"
proof -
  assume a: "\<bar>n\<bar> < 2 ^ 53"
  then have "(of_int \<bar>n\<bar> :: rat) < 2 ^ 53" by simp
  also have "\<dots> < (2::rat) ^ 1024" by simp
  finally have "\<bar>of_int n * 2 powi 0\<bar> < (2::rat) ^ 1024" by simp
  from round_double_exact [OF a _ this] show ?thesis by simp
qed

lemma round_double_mono:
  assumes "x \<le> y"
  shows "\<not> double_less (round_double y) (round_double x)"
proof -
  consider "0 < x" | "x = 0" | "x < 0" "0 \<le> y" | "y < 0" using assms by linarith
  then show ?thesis
  proof cases
    case 1
    with assms have y: "0 < y" by simp
    from round_magnitude_mono [of "\<bar>x\<bar>" "\<bar>y\<bar>"] 1 y assms
    have "round_magnitude \<bar>x\<bar> \<le> round_magnitude \<bar>y\<bar>" by simp
    with 1 y show ?thesis by (auto simp: round_double_def Let_def)
  next
    case 2
    with assms have y: "0 \<le> y" by simp
    from round_magnitude_nonneg [of "\<bar>y\<bar>"] have "0 \<le> round_magnitude \<bar>y\<bar>" by simp
    with 2 y show ?thesis by (auto simp: round_double_def Let_def round_magnitude_zero)
  next
    case 3
    from round_magnitude_nonneg [of "\<bar>x\<bar>"] round_magnitude_nonneg [of "\<bar>y\<bar>"]
    have "0 \<le> round_magnitude \<bar>x\<bar>" and "0 \<le> round_magnitude \<bar>y\<bar>" by simp_all
    with 3 show ?thesis by (auto simp: round_double_def Let_def)
  next
    case 4
    with assms have x: "x < 0" by simp
    from round_magnitude_mono [of "\<bar>y\<bar>" "\<bar>x\<bar>"] 4 x assms
    have "round_magnitude \<bar>y\<bar> \<le> round_magnitude \<bar>x\<bar>" by simp
    with 4 x show ?thesis by (auto simp: round_double_def Let_def)
  qed
qed


text \<open>Numerals a proof can evaluate.\<close>

lemma round_double_numeral:
  "(numeral k :: int) < 2 ^ 53 \<Longrightarrow> round_double (numeral k) = Finite (numeral k)"
  using round_double_int [of "numeral k"] by simp

lemma round_double_one: "round_double 1 = Finite 1"
  using round_double_int [of 1] by simp

lemma round_double_zero: "round_double 0 = Finite 0"
  by (simp add: round_double_def)

lemma round_double_half:
  assumes "\<bar>k\<bar> < 2 ^ 53"
  shows "round_double (of_int k / 2) = Finite (of_int k / 2)"
proof -
  have "(of_int \<bar>k\<bar> :: rat) < 2 ^ 53" using assms by simp
  also have "\<dots> < (2::rat) ^ 1024" by simp
  finally have "\<bar>of_int k * 2 powi (- 1)\<bar> < (2::rat) ^ 1024"
    by (simp add: power_int_minus abs_mult)
  from round_double_exact [OF assms _ this] show ?thesis by (simp add: power_int_minus field_simps)
qed

lemma py_mid_int:
  "\<bar>m + n\<bar> < 2 ^ 53 \<Longrightarrow> py_mid (PyInt m) (PyInt n) = Inr (Finite (of_int (m + n) / 2))"
  using round_double_half [of "m + n"] by (simp add: py_mid_def)


lemma double_less_irrefl: "\<not> double_less x x"
  by (cases x) simp_all

lemma double_less_asym: "double_less x y \<Longrightarrow> \<not> double_less y x"
  by (cases x; cases y) simp_all

section \<open>Facts about the windows and the decision\<close>

text \<open>The slices of the source are the specification's most recent points.\<close>

lemma short_window_last: "short_window mids = spec_last_points 5 mids"
  by (simp add: short_window_def spec_last_points_def take_rev)

lemma long_window_last: "long_window mids = spec_last_points 20 mids"
  by (simp add: long_window_def spec_last_points_def take_rev)

lemma window_nonempty: "mids \<noteq> [] \<Longrightarrow> short_window mids \<noteq> [] \<and> long_window mids \<noteq> []"
  by (cases mids) (auto simp: short_window_def long_window_def)

lemma window_finite:
  "list_all is_finite mids \<Longrightarrow>
     list_all is_finite (short_window mids) \<and> list_all is_finite (long_window mids)"
  by (auto simp: short_window_def long_window_def list_all_iff dest: in_set_dropD)

lemma mean_value_finite:
  "list_all is_finite xs \<Longrightarrow>
     mean_value xs = round_double (spec_arithmetic_mean (map value_of xs))"
  by (simp add: mean_value_def spec_arithmetic_mean_def)

text \<open>On a series that is not empty neither mean raises, and the decision is a comparison.\<close>

lemma decide_mids_cases:
  assumes "mids \<noteq> []"
  shows "decide_mids mids trade_size =
    (if double_less (mean_value (long_window mids)) (mean_value (short_window mids)) then
       Inr \<lparr>direction = ''BUY'', size_dec = trade_size, reason = ''short_avg > long_avg''\<rparr>
     else if double_less (mean_value (short_window mids)) (mean_value (long_window mids)) then
       Inr \<lparr>direction = ''SELL'', size_dec = trade_size, reason = ''short_avg < long_avg''\<rparr>
     else Inr \<lparr>direction = ''NONE'', size_dec = 0, reason = ''no crossover''\<rparr>)"
  using window_nonempty [OF assms] by (simp add: decide_mids_def mean_def)

lemma decide_mids_empty: "decide_mids [] trade_size = Inl StatisticsError"
  by (simp add: decide_mids_def short_window_def mean_def)

text \<open>
  \<^verbatim>\<open>decide_trade\<close> only ever decides on a series that is not empty: the extraction has
  raised before, so \<^verbatim>\<open>statistics.mean\<close> cannot.
\<close>

lemma decide_trade_series:
  "decide_trade p trade_size = Inr d \<Longrightarrow>
     \<exists>mids. mids \<noteq> [] \<and> extract_mid_prices p = Inr mids \<and> decide_mids mids trade_size = Inr d"
  by (auto simp: decide_trade_def extract_mid_prices_def split: sum.splits if_splits option.splits)

section \<open>Facts about the extraction loop\<close>

text \<open>One candle, in terms of its fields.\<close>

lemma candle_mid_resolved:
  assumes "spec_bid c = Some b" and "spec_ask c = Some a" and "direct_nonzero c"
  shows "resolve_bid c = Inr (Some b) \<and> resolve_ask c = Inr (Some a)
       \<and> candle_mid c = (case py_mid b a of Inl e \<Rightarrow> Inl e | Inr m \<Rightarrow> Inr (Some m))"
proof -
  from assms have b: "resolve_bid c = Inr (Some b)"
    by (auto simp: resolve_bid_def py_or_def close_bid_def spec_bid_def direct_nonzero_def
        split: option.splits entry.splits)
  from assms have a: "resolve_ask c = Inr (Some a)"
    by (auto simp: resolve_ask_def py_or_def close_ask_def spec_ask_def direct_nonzero_def
        split: option.splits entry.splits)
  from b a show ?thesis by (simp add: candle_mid_def)
qed










lemma loop_all_kept:
  assumes "\<forall>c \<in> set cs. \<exists>m. candle_mid c = Inr (Some m)"
  shows "\<exists>qs. mid_prices_loop cs acc = Inr (acc @ qs) \<and> length qs = length cs
           \<and> (\<forall>i < length cs. candle_mid (cs ! i) = Inr (Some (qs ! i)))"
  using assms
proof (induction cs arbitrary: acc)
  case Nil
  then show ?case by simp
next
  case (Cons c cs)
  from Cons.prems obtain m where m: "candle_mid c = Inr (Some m)" by auto
  from Cons.prems have "\<forall>c \<in> set cs. \<exists>m. candle_mid c = Inr (Some m)" by simp
  from Cons.IH [OF this, of "acc @ [m]"] obtain qs where
    q: "mid_prices_loop cs (acc @ [m]) = Inr ((acc @ [m]) @ qs)" "length qs = length cs"
       "\<forall>i < length cs. candle_mid (cs ! i) = Inr (Some (qs ! i))" by blast
  have "\<forall>i < length (c # cs). candle_mid ((c # cs) ! i) = Inr (Some ((m # qs) ! i))"
    using m q(3) by (auto simp: nth_Cons split: nat.splits)
  with m q(1,2) show ?case by (intro exI [of _ "m # qs"]) simp
qed

section \<open>The example inputs evaluated\<close>

lemma flat_mid:
  "b \<noteq> 0 \<Longrightarrow> a \<noteq> 0 \<Longrightarrow> \<bar>b + a\<bar> < 2 ^ 53 \<Longrightarrow>
     candle_mid (flat b a) = Inr (Some (Finite (of_int (b + a) / 2)))"
  by (simp add: candle_mid_def flat_def resolve_bid_def resolve_ask_def py_or_def py_mid_int)

lemma rising_extract: "extract_mid_prices rising_payload = Inr rising"
  by (simp add: extract_mid_prices_def get_prices_def rising_payload_def rising_def flat_mid)

lemma rising_short_mean:
  "mean_value (short_window rising) = Finite (2476979795053773 / 1125899906842624)"
  by (simp add: rising_def short_window_def mean_value_def round_double_at [of 1] round_eval)

lemma rising_long_mean: "mean_value (long_window rising) = Finite 2"
  by (simp add: rising_def long_window_def mean_value_def round_double_numeral)

lemma rising_buy:
  "decide_mids rising trade_size =
     Inr \<lparr>direction = ''BUY'', size_dec = trade_size, reason = ''short_avg > long_avg''\<rparr>"
proof -
  have "rising \<noteq> []" by (simp add: rising_def)
  from decide_mids_cases [OF this, of trade_size] show ?thesis
    by (simp add: rising_short_mean rising_long_mean)
qed

lemma falling_sell:
  "decide_mids falling trade_size =
     Inr \<lparr>direction = ''SELL'', size_dec = trade_size, reason = ''short_avg < long_avg''\<rparr>"
proof -
  have ne: "falling \<noteq> []" by (simp add: falling_def)
  have s: "mean_value (short_window falling) = Finite 1"
    by (simp add: falling_def short_window_def mean_value_def round_double_one)
  have l: "mean_value (long_window falling) = Finite 2"
    by (simp add: falling_def long_window_def mean_value_def round_double_numeral)
  from decide_mids_cases [OF ne, of trade_size] show ?thesis by (simp add: s l)
qed

lemma near_tie_means:
  "mean_value (short_window near_tie) = Finite (2 ^ 52)
   \<and> mean_value (long_window near_tie) = Finite (2 ^ 52)"
  by (simp add: near_tie_def short_window_def long_window_def mean_value_def
      round_double_at [of 52] round_eval)

text \<open>When no decision is computed, no order is placed and the run ends in the exception.\<close>

lemma execute_trade_no_decision:
  assumes "\<forall>payload. fetch_prices client session epic = Inr payload \<longrightarrow>
             (\<exists>e. decide_trade payload trade_size = Inl e)"
  shows "place_order_count (snd (execute_trade client session epic trade_size dry_run)) = 0
       \<and> (\<exists>e. fst (execute_trade client session epic trade_size dry_run) = Inl e)"
  using assms
  by (auto simp: execute_trade_def place_order_count_def split: sum.splits)

section \<open>The orchestrator gates the order\<close>

text \<open>
  C1. Whenever \<^verbatim>\<open>execute_trade\<close> has fetched a payload and computed a decision,
  \<^verbatim>\<open>place_order\<close> is called if and only if the direction is not \<^verbatim>\<open>NONE\<close> and
  \<^verbatim>\<open>dry_run\<close> is false. With direction \<^verbatim>\<open>NONE\<close> the result is the \<^verbatim>\<open>skipped\<close>
  dictionary; with another direction and \<^verbatim>\<open>dry_run\<close> the result is the simulated one
  (status \<^verbatim>\<open>"dry_run"\<close> in the source) and the only call made is the price fetch;
  otherwise \<^verbatim>\<open>place_order\<close> is called exactly once, with the decision's direction and
  size, and the result is the \<^verbatim>\<open>placed\<close> dictionary carrying the venue's answer (or
  the exception of that call, which is passed on).
\<close>

theorem order_gating:
  assumes "fetch_prices client session epic = Inr payload"
    and "decide_trade payload trade_size = Inr d"
  shows "(0 < place_order_count (snd (execute_trade client session epic trade_size dry_run)))
           = (direction d \<noteq> ''NONE'' \<and> \<not> dry_run)
       \<and> (direction d = ''NONE'' \<longrightarrow>
            execute_trade client session epic trade_size dry_run =
              (Inr [(''status'', Str ''skipped''), (''reason'', Str (reason d))],
               [FetchPrices session epic]))
       \<and> (direction d \<noteq> ''NONE'' \<and> dry_run \<longrightarrow>
            execute_trade client session epic trade_size dry_run =
              (Inr [(''status'', Str ''dry_run''), (''direction'', Str (direction d)),
                    (''size'', Num (size_dec d)), (''reason'', Str (reason d))],
               [FetchPrices session epic]))
       \<and> (direction d \<noteq> ''NONE'' \<and> \<not> dry_run \<longrightarrow>
            snd (execute_trade client session epic trade_size dry_run) =
              [FetchPrices session epic, PlaceOrder session epic (direction d) (size_dec d)]
            \<and> fst (execute_trade client session epic trade_size dry_run) =
              (case place_order client session epic (direction d) (size_dec d) of
                 Inl e \<Rightarrow> Inl e
               | Inr result \<Rightarrow>
                   Inr [(''status'', Str ''placed''), (''direction'', Str (direction d)),
                        (''result'', Obj result)]))"
  using assms
  by (simp add: execute_trade_def place_order_count_def split: sum.splits)

text \<open>
  The client double on a BUY decision: a dry run places nothing, a live run places one
  order.
\<close>

theorem order_gating_witness:
  "fetch_prices demo_client demo_session ''GOLD'' = Inr rising_payload
   \<and> decide_trade rising_payload 2 =
       Inr \<lparr>direction = ''BUY'', size_dec = 2, reason = ''short_avg > long_avg''\<rparr>
   \<and> execute_trade demo_client demo_session ''GOLD'' 2 True =
       (Inr [(''status'', Str ''dry_run''), (''direction'', Str ''BUY''),
             (''size'', Num 2), (''reason'', Str ''short_avg > long_avg'')],
        [FetchPrices demo_session ''GOLD''])
   \<and> place_order_count (snd (execute_trade demo_client demo_session ''GOLD'' 2 True)) = 0
   \<and> execute_trade demo_client demo_session ''GOLD'' 2 False =
       (Inr [(''status'', Str ''placed''), (''direction'', Str ''BUY''),
             (''result'', Obj ''dealReference'')],
        [FetchPrices demo_session ''GOLD'', PlaceOrder demo_session ''GOLD'' ''BUY'' 2])
   \<and> place_order_count (snd (execute_trade demo_client demo_session ''GOLD'' 2 False)) = 1"
proof -
  have f: "fetch_prices demo_client demo_session ''GOLD'' = Inr rising_payload"
    by (simp add: demo_client_def)
  have d: "decide_trade rising_payload 2 =
       Inr \<lparr>direction = ''BUY'', size_dec = 2, reason = ''short_avg > long_avg''\<rparr>"
    by (simp add: decide_trade_def rising_extract rising_buy)
  have p: "place_order demo_client demo_session ''GOLD'' ''BUY'' 2 = Inr ''dealReference''"
    by (simp add: demo_client_def)
  show ?thesis
    using f d order_gating [OF f d, of True] order_gating [OF f d, of False]
    by (simp add: p place_order_count_def prod_eq_iff)
qed

section \<open>The decision rule\<close>

text \<open>
  C2, as stated, fails where the two exact means differ by less than the rounding of
  \<^verbatim>\<open>statistics.mean\<close> resolves. On the series of five points \<open>2\<^sup>5\<^sup>2\<close> followed by
  \<open>2\<^sup>5\<^sup>2 + 1\<close> the mean of the last 5 points, \<open>2\<^sup>5\<^sup>2 + 1/5\<close>, exceeds the mean of all
  points, \<open>2\<^sup>5\<^sup>2 + 1/6\<close>; both are returned as the double \<open>2\<^sup>5\<^sup>2\<close>, and the decision is
  NONE.
\<close>

theorem near_tie_counterexample:
  "near_tie \<noteq> []
   \<and> spec_arithmetic_mean (map value_of (spec_last_points 5 near_tie)) = 2 ^ 52 + 1 / 5
   \<and> spec_arithmetic_mean (map value_of (spec_last_points 20 near_tie)) = 2 ^ 52 + 1 / 6
   \<and> decide_mids near_tie 1 =
       Inr \<lparr>direction = ''NONE'', size_dec = 0, reason = ''no crossover''\<rparr>"
proof -
  have ne: "near_tie \<noteq> []" by (simp add: near_tie_def)
  have m: "spec_arithmetic_mean (map value_of (spec_last_points 5 near_tie)) = 2 ^ 52 + 1 / 5
     \<and> spec_arithmetic_mean (map value_of (spec_last_points 20 near_tie)) = 2 ^ 52 + 1 / 6"
    by (simp add: near_tie_def spec_last_points_def spec_arithmetic_mean_def)
  from decide_mids_cases [OF ne, of 1] near_tie_means ne m show ?thesis by simp
qed

text \<open>
  C2, amended. On every series that is not empty, and for every trade size, the decision
  compares the two means as \<^verbatim>\<open>statistics.mean\<close> returns them: BUY with the trade size
  and reason \<^verbatim>\<open>"short_avg > long_avg"\<close> when the returned mean of the last 5 points is
  greater than the returned mean of the last 20 points, SELL with the trade size and
  reason \<^verbatim>\<open>"short_avg < long_avg"\<close> when it is smaller, and NONE with size 0 and reason
  \<^verbatim>\<open>"no crossover"\<close> otherwise. On a series of finite points each returned mean is the
  arithmetic mean rounded to the nearest double; so the decision is NONE when the two
  arithmetic means are equal, BUY only when the arithmetic mean of the last 5 points is
  the greater one, and SELL only when it is the smaller one.
\<close>

theorem decide_rule:
  assumes "mids \<noteq> []"
  shows "(double_less (mean_value (spec_last_points 20 mids)) (mean_value (spec_last_points 5 mids)) \<longrightarrow>
           decide_mids mids trade_size =
             Inr \<lparr>direction = ''BUY'', size_dec = trade_size, reason = ''short_avg > long_avg''\<rparr>)
       \<and> (double_less (mean_value (spec_last_points 5 mids)) (mean_value (spec_last_points 20 mids)) \<longrightarrow>
           decide_mids mids trade_size =
             Inr \<lparr>direction = ''SELL'', size_dec = trade_size, reason = ''short_avg < long_avg''\<rparr>)
       \<and> (\<not> double_less (mean_value (spec_last_points 20 mids)) (mean_value (spec_last_points 5 mids))
          \<and> \<not> double_less (mean_value (spec_last_points 5 mids)) (mean_value (spec_last_points 20 mids)) \<longrightarrow>
           decide_mids mids trade_size =
             Inr \<lparr>direction = ''NONE'', size_dec = 0, reason = ''no crossover''\<rparr>)
       \<and> mean (spec_last_points 5 mids) = Inr (mean_value (spec_last_points 5 mids))
       \<and> mean (spec_last_points 20 mids) = Inr (mean_value (spec_last_points 20 mids))
       \<and> (list_all is_finite mids \<longrightarrow>
            mean_value (spec_last_points 5 mids) =
              round_double (spec_arithmetic_mean (map value_of (spec_last_points 5 mids)))
          \<and> mean_value (spec_last_points 20 mids) =
              round_double (spec_arithmetic_mean (map value_of (spec_last_points 20 mids)))
          \<and> (spec_arithmetic_mean (map value_of (spec_last_points 5 mids))
               = spec_arithmetic_mean (map value_of (spec_last_points 20 mids)) \<longrightarrow>
              decide_mids mids trade_size =
                Inr \<lparr>direction = ''NONE'', size_dec = 0, reason = ''no crossover''\<rparr>)
          \<and> (\<forall>d. decide_mids mids trade_size = Inr d \<and> direction d = ''BUY'' \<longrightarrow>
                spec_arithmetic_mean (map value_of (spec_last_points 5 mids))
                  > spec_arithmetic_mean (map value_of (spec_last_points 20 mids)))
          \<and> (\<forall>d. decide_mids mids trade_size = Inr d \<and> direction d = ''SELL'' \<longrightarrow>
                spec_arithmetic_mean (map value_of (spec_last_points 5 mids))
                  < spec_arithmetic_mean (map value_of (spec_last_points 20 mids))))"
proof -
  let ?s = "mean_value (spec_last_points 5 mids)"
  let ?l = "mean_value (spec_last_points 20 mids)"
  let ?es = "spec_arithmetic_mean (map value_of (spec_last_points 5 mids))"
  let ?el = "spec_arithmetic_mean (map value_of (spec_last_points 20 mids))"
  note d = decide_mids_cases [OF assms, of trade_size, unfolded short_window_last long_window_last]
  from window_nonempty [OF assms]
  have m: "mean (spec_last_points 5 mids) = Inr ?s" "mean (spec_last_points 20 mids) = Inr ?l"
    by (simp_all add: mean_def short_window_last long_window_last)
  have fin: "?s = round_double ?es \<and> ?l = round_double ?el
      \<and> (?es = ?el \<longrightarrow> decide_mids mids trade_size =
            Inr \<lparr>direction = ''NONE'', size_dec = 0, reason = ''no crossover''\<rparr>)
      \<and> (\<forall>d. decide_mids mids trade_size = Inr d \<and> direction d = ''BUY'' \<longrightarrow> ?es > ?el)
      \<and> (\<forall>d. decide_mids mids trade_size = Inr d \<and> direction d = ''SELL'' \<longrightarrow> ?es < ?el)"
    if f: "list_all is_finite mids"
  proof -
    from window_finite [OF f]
    have r: "?s = round_double ?es" "?l = round_double ?el"
      by (simp_all add: mean_value_finite short_window_last long_window_last)
    have eq: "?es = ?el \<longrightarrow> decide_mids mids trade_size =
            Inr \<lparr>direction = ''NONE'', size_dec = 0, reason = ''no crossover''\<rparr>"
      using d r by (simp add: double_less_irrefl)
    have buy: "?es > ?el" if "decide_mids mids trade_size = Inr d" "direction d = ''BUY''" for d
    proof (rule ccontr)
      assume "\<not> ?es > ?el"
      then have "?es \<le> ?el" by simp
      from round_double_mono [OF this] r have "\<not> double_less ?l ?s" by simp
      with d that show False by (auto split: if_splits)
    qed
    have sell: "?es < ?el" if "decide_mids mids trade_size = Inr d" "direction d = ''SELL''" for d
    proof (rule ccontr)
      assume "\<not> ?es < ?el"
      then have "?el \<le> ?es" by simp
      from round_double_mono [OF this] r have "\<not> double_less ?s ?l" by simp
      with d that show False by (auto split: if_splits)
    qed
    from r eq buy sell show ?thesis by blast
  qed
  have b: "double_less ?l ?s \<longrightarrow>
           decide_mids mids trade_size =
             Inr \<lparr>direction = ''BUY'', size_dec = trade_size, reason = ''short_avg > long_avg''\<rparr>"
    using d by simp
  have s: "double_less ?s ?l \<longrightarrow>
           decide_mids mids trade_size =
             Inr \<lparr>direction = ''SELL'', size_dec = trade_size, reason = ''short_avg < long_avg''\<rparr>"
    using d double_less_asym [of ?s ?l] by auto
  have n: "\<not> double_less ?l ?s \<and> \<not> double_less ?s ?l \<longrightarrow>
           decide_mids mids trade_size =
             Inr \<lparr>direction = ''NONE'', size_dec = 0, reason = ''no crossover''\<rparr>"
    using d by simp
  from b s n m fin show ?thesis by blast
qed

text \<open>
  The rising series: the mean of the last 5 points is returned as the double nearest to
  11/5, the mean of all points as 2, and the decision is BUY.
\<close>

theorem decide_rule_witness:
  "rising \<noteq> [] \<and> list_all is_finite rising
   \<and> mean_value (spec_last_points 5 rising) = Finite (2476979795053773 / 1125899906842624)
   \<and> mean_value (spec_last_points 20 rising) = Finite 2
   \<and> spec_arithmetic_mean (map value_of (spec_last_points 5 rising)) = 11 / 5
   \<and> spec_arithmetic_mean (map value_of (spec_last_points 20 rising)) = 2
   \<and> decide_mids rising 3 =
       Inr \<lparr>direction = ''BUY'', size_dec = 3, reason = ''short_avg > long_avg''\<rparr>"
proof -
  have ne: "rising \<noteq> []" and f: "list_all is_finite rising" by (simp_all add: rising_def)
  have e: "spec_arithmetic_mean (map value_of (spec_last_points 5 rising)) = 11 / 5
     \<and> spec_arithmetic_mean (map value_of (spec_last_points 20 rising)) = 2"
    by (simp add: rising_def spec_last_points_def spec_arithmetic_mean_def)
  have s: "mean_value (spec_last_points 5 rising) = Finite (2476979795053773 / 1125899906842624)"
    using rising_short_mean by (simp add: short_window_last)
  have l: "mean_value (spec_last_points 20 rising) = Finite 2"
    using rising_long_mean by (simp add: long_window_last)
  from decide_rule [OF ne, of 3] ne f e s l show ?thesis by simp
qed

section \<open>Extraction of the midpoint series\<close>

text \<open>
  C3, as stated, fails in three ways. On the empty candle list every candle has both
  sides, and the extraction raises instead of returning a series of length 0. On a
  candle whose bid and ask are the integer \<open>2\<^sup>1\<^sup>0\<^sup>2\<^sup>4\<close> the true division raises
  \<^verbatim>\<open>OverflowError\<close>. On a candle with bid \<open>2\<^sup>5\<^sup>3\<close> and ask \<open>2\<^sup>5\<^sup>3 + 2\<close> the element of
  the series is the double \<open>2\<^sup>5\<^sup>3\<close>, not the arithmetic mean \<open>2\<^sup>5\<^sup>3 + 1\<close>.
\<close>

theorem empty_candles_counterexample:
  "list_all (\<lambda>c. spec_bid c \<noteq> None \<and> spec_ask c \<noteq> None) []
   \<and> extract_mid_prices \<lparr>prices = Present []\<rparr> = Inl ValueError
   \<and> spec_bid (flat (2 ^ 1024) (2 ^ 1024)) = Some (PyInt (2 ^ 1024))
   \<and> spec_ask (flat (2 ^ 1024) (2 ^ 1024)) = Some (PyInt (2 ^ 1024))
   \<and> extract_mid_prices \<lparr>prices = Present [flat (2 ^ 1024) (2 ^ 1024)]\<rparr> = Inl OverflowError
   \<and> extract_mid_prices \<lparr>prices = Present [flat (2 ^ 53) (2 ^ 53 + 2)]\<rparr> = Inr [Finite (2 ^ 53)]
   \<and> ((2 ^ 53 + (2 ^ 53 + 2)) / 2 :: rat) = 2 ^ 53 + 1"
proof -
  have o: "py_mid (PyInt (2 ^ 1024)) (PyInt (2 ^ 1024)) = Inl OverflowError"
    by (simp add: py_mid_def round_double_at [of 1024] round_eval)
  have r: "py_mid (PyInt (2 ^ 53)) (PyInt (2 ^ 53 + 2)) = Inr (Finite (2 ^ 53))"
    by (simp add: py_mid_def round_double_at [of 53] round_eval)
  show ?thesis
    by (simp add: extract_mid_prices_def get_prices_def candle_mid_def flat_def spec_bid_def
        spec_ask_def resolve_bid_def resolve_ask_def py_or_def o [simplified] r [simplified])
qed

text \<open>
  C3, amended. For every candle list that is not empty, in which every candle has a bid
  and an ask (the direct field, else the field under \<^verbatim>\<open>close\<close>), no direct bid or ask
  is a zero, and every \<^verbatim>\<open>(bid + ask) / 2\<close> can be computed (does not raise
  \<^verbatim>\<open>OverflowError\<close>), the extraction returns a series of the same length, in the same
  order, whose element \<open>i\<close> is the value of \<^verbatim>\<open>(bid + ask) / 2\<close> for the bid and ask
  of candle \<open>i\<close>: a double, which is the arithmetic mean itself when bid and ask are
  integers whose sum is below \<open>2\<^sup>5\<^sup>3\<close> in magnitude.
\<close>

theorem extract_all_resolvable:
  assumes "cs \<noteq> []"
    and "\<forall>c \<in> set cs. direct_nonzero c
           \<and> (\<exists>b a m. spec_bid c = Some b \<and> spec_ask c = Some a \<and> py_mid b a = Inr m)"
  shows "\<exists>mids. extract_mid_prices \<lparr>prices = Present cs\<rparr> = Inr mids
           \<and> length mids = length cs
           \<and> (\<forall>i < length cs. \<exists>b a. spec_bid (cs ! i) = Some b \<and> spec_ask (cs ! i) = Some a
                 \<and> py_mid b a = Inr (mids ! i)
                 \<and> (\<forall>m n. b = PyInt m \<and> a = PyInt n \<and> \<bar>m + n\<bar> < 2 ^ 53 \<longrightarrow>
                       mids ! i = Finite (of_int (m + n) / 2)))"
proof -
  have k: "\<exists>b a m. spec_bid c = Some b \<and> spec_ask c = Some a \<and> py_mid b a = Inr m
             \<and> candle_mid c = Inr (Some m)" if "c \<in> set cs" for c
  proof -
    from that assms(2) obtain b a m where
      h: "direct_nonzero c" "spec_bid c = Some b" "spec_ask c = Some a" "py_mid b a = Inr m"
      by blast
    from candle_mid_resolved [OF h(2) h(3) h(1)] h(4) have "candle_mid c = Inr (Some m)" by simp
    with h show ?thesis by blast
  qed
  then have "\<forall>c \<in> set cs. \<exists>m. candle_mid c = Inr (Some m)" by blast
  from loop_all_kept [OF this, of "[]"] obtain qs where
    q: "mid_prices_loop cs [] = Inr qs" "length qs = length cs"
       "\<forall>i < length cs. candle_mid (cs ! i) = Inr (Some (qs ! i))" by auto
  from q(2) assms(1) have "qs \<noteq> []" by auto
  with q(1) have e: "extract_mid_prices \<lparr>prices = Present cs\<rparr> = Inr qs"
    by (simp add: extract_mid_prices_def get_prices_def)
  have "\<exists>b a. spec_bid (cs ! i) = Some b \<and> spec_ask (cs ! i) = Some a
          \<and> py_mid b a = Inr (qs ! i)
          \<and> (\<forall>m n. b = PyInt m \<and> a = PyInt n \<and> \<bar>m + n\<bar> < 2 ^ 53 \<longrightarrow>
                qs ! i = Finite (of_int (m + n) / 2))" if "i < length cs" for i
  proof -
    from that have "cs ! i \<in> set cs" by simp
    from k [OF this] obtain b a m where
      h: "spec_bid (cs ! i) = Some b" "spec_ask (cs ! i) = Some a" "py_mid b a = Inr m"
         "candle_mid (cs ! i) = Inr (Some m)" by blast
    from q(3) that h(4) have "qs ! i = m" by simp
    with h(1,2,3) show ?thesis by (auto simp: py_mid_int)
  qed
  with e q(2) show ?thesis by blast
qed

text \<open>
  Two candles. The second has a direct bid and another bid under \<^verbatim>\<open>close\<close>, and its
  ask under \<^verbatim>\<open>close\<close> only: the direct bid is the one used, and the series is
  \<open>[2, 4]\<close>.
\<close>

theorem extract_all_resolvable_witness:
  "[flat 1 3,
    \<lparr>bid = Some (PyInt 2), ask = None,
     close = Present \<lparr>bid = Some (PyInt 9), ask = Some (PyInt 6)\<rparr>\<rparr>] \<noteq> []
   \<and> direct_nonzero (flat 1 3)
   \<and> direct_nonzero \<lparr>bid = Some (PyInt 2), ask = None,
        close = Present \<lparr>bid = Some (PyInt 9), ask = Some (PyInt 6)\<rparr>\<rparr>
   \<and> spec_bid \<lparr>bid = Some (PyInt 2), ask = None,
        close = Present \<lparr>bid = Some (PyInt 9), ask = Some (PyInt 6)\<rparr>\<rparr> = Some (PyInt 2)
   \<and> spec_ask \<lparr>bid = Some (PyInt 2), ask = None,
        close = Present \<lparr>bid = Some (PyInt 9), ask = Some (PyInt 6)\<rparr>\<rparr> = Some (PyInt 6)
   \<and> extract_mid_prices
       \<lparr>prices = Present [flat 1 3,
          \<lparr>bid = Some (PyInt 2), ask = None,
           close = Present \<lparr>bid = Some (PyInt 9), ask = Some (PyInt 6)\<rparr>\<rparr>]\<rparr>
       = Inr [Finite 2, Finite 4]"
proof -
  let ?c = "\<lparr>bid = Some (PyInt 2), ask = None,
             close = Present \<lparr>bid = Some (PyInt 9), ask = Some (PyInt 6)\<rparr>\<rparr>"
  have m1: "py_mid (PyInt 1) (PyInt 3) = Inr (Finite 2)"
    and m2: "py_mid (PyInt 2) (PyInt 6) = Inr (Finite 4)"
    using py_mid_int [of 1 3] py_mid_int [of 2 6] by simp_all
  have f: "direct_nonzero (flat 1 3) \<and> spec_bid (flat 1 3) = Some (PyInt 1)
           \<and> spec_ask (flat 1 3) = Some (PyInt 3)"
    by (simp add: direct_nonzero_def spec_bid_def spec_ask_def flat_def)
  have c: "direct_nonzero ?c \<and> spec_bid ?c = Some (PyInt 2) \<and> spec_ask ?c = Some (PyInt 6)"
    by (simp add: direct_nonzero_def spec_bid_def spec_ask_def)
  have h: "\<forall>c \<in> set [flat 1 3, ?c]. direct_nonzero c
           \<and> (\<exists>b a m. spec_bid c = Some b \<and> spec_ask c = Some a \<and> py_mid b a = Inr m)"
    using f c m1 m2 by simp
  have e: "extract_mid_prices \<lparr>prices = Present [flat 1 3, ?c]\<rparr> = Inr [Finite 2, Finite 4]"
    using m1 m2
    by (simp add: extract_mid_prices_def get_prices_def candle_mid_def flat_def
        resolve_bid_def resolve_ask_def py_or_def close_bid_def close_ask_def)
  from extract_all_resolvable [OF _ h] e f c show ?thesis by simp
qed




text \<open>
  C10, as stated, fails when the nested value is zero: \<^verbatim>\<open>0 or 0\<close> is \<open>0\<close>, not
  \<open>None\<close>, so a side whose direct and nested values are both zero resolves to zero and
  the candle stays in the series.
\<close>

theorem nested_zero_counterexample:
  "py_or (Some (PyInt 0)) (Inr (Some (PyInt 0))) = Inr (Some (PyInt 0))
   \<and> resolve_bid \<lparr>bid = Some (PyInt 0), ask = Some (PyInt 2),
        close = Present \<lparr>bid = Some (PyInt 0), ask = None\<rparr>\<rparr> = Inr (Some (PyInt 0))
   \<and> extract_mid_prices
       \<lparr>prices = Present [\<lparr>bid = Some (PyInt 0), ask = Some (PyInt 2),
          close = Present \<lparr>bid = Some (PyInt 0), ask = None\<rparr>\<rparr>]\<rparr>
       = Inr [Finite 1]"
  using py_mid_int [of 0 2]
  by (simp add: extract_mid_prices_def get_prices_def candle_mid_def
      resolve_bid_def resolve_ask_def py_or_def close_bid_def close_ask_def)

text \<open>
  C10, amended. A direct bid or ask that is a zero (the int \<open>0\<close> or the float zero) is
  treated as missing: the side resolves to the nested \<^verbatim>\<open>close\<close> value. A side resolves
  to \<open>None\<close> exactly when its direct value is absent or a zero and its nested value is
  absent; a nested value is used as it is, zero included. The candle is left out of the
  series when a side resolves to \<open>None\<close> (and the other side resolves without an
  exception), and appends \<^verbatim>\<open>(bid + ask) / 2\<close> of the resolved sides otherwise.
\<close>

theorem falsy_fallback:
  "(\<forall>z. bid c = Some z \<and> \<not> py_truthy z \<longrightarrow> resolve_bid c = close_bid c)
   \<and> (\<forall>z. ask c = Some z \<and> \<not> py_truthy z \<longrightarrow> resolve_ask c = close_ask c)
   \<and> (\<forall>z. (\<not> py_truthy z) = (z = PyInt 0 \<or> z = PyFloat (Finite 0)))
   \<and> (resolve_bid c = Inr None)
       = ((bid c = None \<or> bid c = Some (PyInt 0) \<or> bid c = Some (PyFloat (Finite 0)))
          \<and> close_bid c = Inr None)
   \<and> (resolve_ask c = Inr None)
       = ((ask c = None \<or> ask c = Some (PyInt 0) \<or> ask c = Some (PyFloat (Finite 0)))
          \<and> close_ask c = Inr None)
   \<and> (\<forall>b a. resolve_bid c = Inr b \<and> resolve_ask c = Inr a \<and> (b = None \<or> a = None) \<longrightarrow>
        mid_prices_loop (c # cs) acc = mid_prices_loop cs acc)
   \<and> (\<forall>b a. resolve_bid c = Inr (Some b) \<and> resolve_ask c = Inr (Some a) \<longrightarrow>
        mid_prices_loop (c # cs) acc =
          (case py_mid b a of Inl e \<Rightarrow> Inl e | Inr m \<Rightarrow> mid_prices_loop cs (acc @ [m])))"
proof -
  have z: "(\<not> py_truthy z) = (z = PyInt 0 \<or> z = PyFloat (Finite 0))" for z
    by (cases z rule: py_truthy.cases) simp_all
  have b: "(resolve_bid c = Inr None)
       = ((bid c = None \<or> bid c = Some (PyInt 0) \<or> bid c = Some (PyFloat (Finite 0)))
          \<and> close_bid c = Inr None)"
    using z by (auto simp: resolve_bid_def py_or_def split: option.splits)
  have a: "(resolve_ask c = Inr None)
       = ((ask c = None \<or> ask c = Some (PyInt 0) \<or> ask c = Some (PyFloat (Finite 0)))
          \<and> close_ask c = Inr None)"
    using z by (auto simp: resolve_ask_def py_or_def split: option.splits)
  have d: "\<forall>b a. resolve_bid c = Inr b \<and> resolve_ask c = Inr a \<and> (b = None \<or> a = None) \<longrightarrow>
        mid_prices_loop (c # cs) acc = mid_prices_loop cs acc"
    by (auto simp: candle_mid_def split: option.splits)
  have k: "\<forall>b a. resolve_bid c = Inr (Some b) \<and> resolve_ask c = Inr (Some a) \<longrightarrow>
        mid_prices_loop (c # cs) acc =
          (case py_mid b a of Inl e \<Rightarrow> Inl e | Inr m \<Rightarrow> mid_prices_loop cs (acc @ [m]))"
    by (auto simp: candle_mid_def split: sum.splits)
  have f: "(\<forall>z. bid c = Some z \<and> \<not> py_truthy z \<longrightarrow> resolve_bid c = close_bid c)
   \<and> (\<forall>z. ask c = Some z \<and> \<not> py_truthy z \<longrightarrow> resolve_ask c = close_ask c)"
    by (simp add: resolve_bid_def resolve_ask_def py_or_def)
  from f z b a d k show ?thesis by blast
qed

text \<open>
  A candle with both direct values zero, a nested bid and no nested ask: the bid resolves
  to the nested one, the ask to \<open>None\<close>, and the loop skips the candle.
\<close>

theorem falsy_fallback_witness:
  "resolve_bid \<lparr>bid = Some (PyInt 0), ask = Some (PyFloat (Finite 0)),
      close = Present \<lparr>bid = Some (PyInt 4), ask = None\<rparr>\<rparr> = Inr (Some (PyInt 4))
   \<and> resolve_ask \<lparr>bid = Some (PyInt 0), ask = Some (PyFloat (Finite 0)),
      close = Present \<lparr>bid = Some (PyInt 4), ask = None\<rparr>\<rparr> = Inr None
   \<and> mid_prices_loop
       [\<lparr>bid = Some (PyInt 0), ask = Some (PyFloat (Finite 0)),
         close = Present \<lparr>bid = Some (PyInt 4), ask = None\<rparr>\<rparr>, flat 2 4] []
       = mid_prices_loop [flat 2 4] []"
  using falsy_fallback
    [of "\<lparr>bid = Some (PyInt 0), ask = Some (PyFloat (Finite 0)),
           close = Present \<lparr>bid = Some (PyInt 4), ask = None\<rparr>\<rparr>" "[flat 2 4]" "[]"]
  by (simp add: close_bid_def close_ask_def)

section \<open>Session creation\<close>

text \<open>
  C5, as stated, fails on a header that is present and empty: \<^verbatim>\<open>not cst\<close> is true for
  the empty string, so a status 200 response with both headers present, \<^verbatim>\<open>CST\<close> empty,
  raises instead of returning a session.
\<close>

theorem empty_header_counterexample:
  "raise_for_status empty_cst_response = Inr ()
   \<and> headers empty_cst_response ''CST'' = Some []
   \<and> headers empty_cst_response ''X-SECURITY-TOKEN'' = Some ''xyz''
   \<and> create_session (Inr empty_cst_response) = Inl RuntimeError"
  by (simp add: empty_cst_response_def raise_for_status_def create_session_def py_not_def)

text \<open>
  C5, amended. On a response that passes \<^verbatim>\<open>raise_for_status\<close>, \<^verbatim>\<open>create_session\<close>
  raises its \<open>RuntimeError\<close> and returns no session whenever the \<^verbatim>\<open>CST\<close> header or the
  \<^verbatim>\<open>X-SECURITY-TOKEN\<close> header is absent or empty; when both are present and not empty
  it returns the session carrying exactly those two values.
\<close>

theorem create_session_tokens:
  assumes "raise_for_status response = Inr ()"
  shows "(headers response ''CST'' = None \<or> headers response ''CST'' = Some []
          \<or> headers response ''X-SECURITY-TOKEN'' = None
          \<or> headers response ''X-SECURITY-TOKEN'' = Some [] \<longrightarrow>
            create_session (Inr response) = Inl RuntimeError)
       \<and> (\<forall>c t. headers response ''CST'' = Some c \<and> c \<noteq> []
            \<and> headers response ''X-SECURITY-TOKEN'' = Some t \<and> t \<noteq> [] \<longrightarrow>
            create_session (Inr response) = Inr \<lparr>cst = c, security_token = t\<rparr>)"
  using assms by (auto simp: create_session_def py_not_def Let_def)

text \<open>The login response with both tokens, and the same response with no headers.\<close>

theorem create_session_tokens_witness:
  "raise_for_status login_response = Inr ()
   \<and> create_session (Inr login_response) = Inr \<lparr>cst = ''abc'', security_token = ''xyz''\<rparr>
   \<and> raise_for_status (login_response\<lparr>headers := Map.empty\<rparr>) = Inr ()
   \<and> create_session (Inr (login_response\<lparr>headers := Map.empty\<rparr>)) = Inl RuntimeError"
proof -
  have ok: "raise_for_status login_response = Inr ()"
    and ok': "raise_for_status (login_response\<lparr>headers := Map.empty\<rparr>) = Inr ()"
    by (simp_all add: login_response_def raise_for_status_def)
  show ?thesis
    using ok ok' create_session_tokens [OF ok] create_session_tokens [OF ok']
    by (simp add: login_response_def)
qed

section \<open>Short series\<close>

text \<open>
  C6, as stated, fails on a series of 6 to 19 points: the short average is taken over
  the last 5 points, not over all of them. On the rising series the short window leaves
  the first point out, its mean (the double nearest to 11/5) differs from the mean 2 of
  all points, and the decision is BUY, where two averages over all points would be equal.
\<close>

theorem short_windows_differ_counterexample:
  "1 \<le> length rising \<and> length rising < 20
   \<and> short_window rising = [Finite 1, Finite 1, Finite 1, Finite 1, Finite 7]
   \<and> short_window rising \<noteq> rising
   \<and> mean (short_window rising) = Inr (Finite (2476979795053773 / 1125899906842624))
   \<and> mean rising = Inr (Finite 2)
   \<and> decide_mids rising 1 =
       Inr \<lparr>direction = ''BUY'', size_dec = 1, reason = ''short_avg > long_avg''\<rparr>"
proof -
  have w: "short_window rising = [Finite 1, Finite 1, Finite 1, Finite 1, Finite 7]"
    and l: "long_window rising = rising"
    by (simp_all add: rising_def short_window_def long_window_def)
  have s: "mean (short_window rising) = Inr (Finite (2476979795053773 / 1125899906842624))"
    using rising_short_mean by (simp add: mean_def w)
  have a: "mean rising = Inr (Finite 2)"
    using rising_long_mean by (simp add: mean_def l) (simp add: rising_def)
  from w s a rising_buy [of 1] show ?thesis by (simp add: rising_def)
qed

text \<open>
  C6, amended. For every series of at least 1 and fewer than 20 points the decision is
  returned without an error; the long average is the mean of all points of the series,
  and the short average is the mean of its last 5 points, which are all of them only
  when the series has at most 5. The decision compares these two means as
  \<^verbatim>\<open>statistics.mean\<close> returns them.
\<close>

theorem below_long_window:
  assumes "1 \<le> length mids" and "length mids < 20"
  shows "(\<exists>d. decide_mids mids trade_size = Inr d)
       \<and> long_window mids = mids
       \<and> short_window mids = spec_last_points 5 mids
       \<and> (length mids \<le> 5 \<longrightarrow> short_window mids = mids)
       \<and> mean (short_window mids) = Inr (mean_value (spec_last_points 5 mids))
       \<and> mean (long_window mids) = Inr (mean_value mids)
       \<and> decide_mids mids trade_size =
           (if double_less (mean_value mids) (mean_value (spec_last_points 5 mids)) then
              Inr \<lparr>direction = ''BUY'', size_dec = trade_size, reason = ''short_avg > long_avg''\<rparr>
            else if double_less (mean_value (spec_last_points 5 mids)) (mean_value mids) then
              Inr \<lparr>direction = ''SELL'', size_dec = trade_size, reason = ''short_avg < long_avg''\<rparr>
            else Inr \<lparr>direction = ''NONE'', size_dec = 0, reason = ''no crossover''\<rparr>)"
proof -
  from assms(1) have ne: "mids \<noteq> []" by auto
  from assms(2) have l: "long_window mids = mids" by (simp add: long_window_def)
  have s: "length mids \<le> 5 \<longrightarrow> short_window mids = mids" by (simp add: short_window_def)
  from window_nonempty [OF ne]
  have m: "mean (short_window mids) = Inr (mean_value (spec_last_points 5 mids))"
    "mean (long_window mids) = Inr (mean_value mids)"
    by (simp_all add: mean_def short_window_last l)
  have d: "decide_mids mids trade_size =
           (if double_less (mean_value mids) (mean_value (spec_last_points 5 mids)) then
              Inr \<lparr>direction = ''BUY'', size_dec = trade_size, reason = ''short_avg > long_avg''\<rparr>
            else if double_less (mean_value (spec_last_points 5 mids)) (mean_value mids) then
              Inr \<lparr>direction = ''SELL'', size_dec = trade_size, reason = ''short_avg < long_avg''\<rparr>
            else Inr \<lparr>direction = ''NONE'', size_dec = 0, reason = ''no crossover''\<rparr>)"
    using decide_mids_cases [OF ne, of trade_size] by (simp add: l short_window_last)
  from d have e: "\<exists>d. decide_mids mids trade_size = Inr d" by simp
  have t: "short_window mids = spec_last_points 5 mids" by (rule short_window_last)
  show ?thesis
    by (rule conjI [OF e conjI [OF l conjI [OF t conjI [OF s conjI [OF m(1) conjI [OF m(2) d]]]]]])
qed

text \<open>The falling series: long window all six points, short window the last five, SELL.\<close>

theorem below_long_window_witness:
  "1 \<le> length falling \<and> length falling < 20
   \<and> long_window falling = falling
   \<and> short_window falling = [Finite 1, Finite 1, Finite 1, Finite 1, Finite 1]
   \<and> decide_mids falling 4 =
       Inr \<lparr>direction = ''SELL'', size_dec = 4, reason = ''short_avg < long_avg''\<rparr>"
proof -
  have h: "1 \<le> length falling" "length falling < 20" by (simp_all add: falling_def)
  have w: "spec_last_points 5 falling = [Finite 1, Finite 1, Finite 1, Finite 1, Finite 1]"
    by (simp add: falling_def spec_last_points_def)
  from below_long_window [OF h, of 4] h w falling_sell [of 4] show ?thesis by simp
qed

text \<open>
  C9. For every series of at least 1 and at most 5 points the decision is NONE with
  size 0 and reason \<^verbatim>\<open>"no crossover"\<close>: both windows are the whole series.
\<close>

theorem short_series_none:
  assumes "mids \<noteq> []" and "length mids \<le> 5"
  shows "decide_mids mids trade_size =
           Inr \<lparr>direction = ''NONE'', size_dec = 0, reason = ''no crossover''\<rparr>"
proof -
  from assms(2) have "short_window mids = mids" and "long_window mids = mids"
    by (simp_all add: short_window_def long_window_def)
  with decide_mids_cases [OF assms(1), of trade_size] show ?thesis
    by (simp add: double_less_irrefl)
qed

text \<open>Three points that are far from constant still give NONE.\<close>

theorem short_series_none_witness:
  "[Finite 3, Finite 9, Finite 4] \<noteq> [] \<and> length [Finite 3, Finite 9, Finite 4] \<le> 5
   \<and> decide_mids [Finite 3, Finite 9, Finite 4] 2 =
       Inr \<lparr>direction = ''NONE'', size_dec = 0, reason = ''no crossover''\<rparr>"
  using short_series_none [of "[Finite 3, Finite 9, Finite 4]" 2] by simp

section \<open>Scenario A\<close>

text \<open>
  C7. On the payload of 25 candles, twenty with bid and ask 1 followed by five with bid
  and ask 10, the midpoint series has 25 points, the long window is fifteen 1s and five
  10s, the short average is 10, the long average is 13/4 = 3.25, and the decision is BUY.
\<close>

theorem scenario_A_buy:
  "extract_mid_prices scenario_A = Inr (replicate 20 (Finite 1) @ replicate 5 (Finite 10))
   \<and> length (replicate 20 (Finite 1) @ replicate 5 (Finite 10)) = 25
   \<and> long_window (replicate 20 (Finite 1) @ replicate 5 (Finite 10))
       = replicate 15 (Finite 1) @ replicate 5 (Finite 10)
   \<and> mean (short_window (replicate 20 (Finite 1) @ replicate 5 (Finite 10))) = Inr (Finite 10)
   \<and> mean (long_window (replicate 20 (Finite 1) @ replicate 5 (Finite 10))) = Inr (Finite (13 / 4))
   \<and> decide_trade scenario_A trade_size =
       Inr \<lparr>direction = ''BUY'', size_dec = trade_size, reason = ''short_avg > long_avg''\<rparr>"
proof -
  let ?mids = "replicate 20 (Finite 1) @ replicate 5 (Finite 10)"
  have c1: "candle_mid (flat 1 1) = Inr (Some (Finite 1))" using flat_mid [of 1 1] by simp
  have c10: "candle_mid (flat 10 10) = Inr (Some (Finite 10))" using flat_mid [of 10 10] by simp
  have e: "extract_mid_prices scenario_A = Inr ?mids"
    by (simp add: extract_mid_prices_def get_prices_def scenario_A_def c1 c10 eval_nat_numeral)
  have r: "round_double (13 / 4) = Finite (13 / 4)"
    using round_double_exact [of 13 "- 2"] by simp
  have s: "mean_value (short_window ?mids) = Finite 10"
    by (simp add: short_window_def mean_value_def round_double_numeral eval_nat_numeral)
  have l: "mean_value (long_window ?mids) = Finite (13 / 4)"
    by (simp add: long_window_def mean_value_def r eval_nat_numeral)
  have w: "long_window ?mids = replicate 15 (Finite 1) @ replicate 5 (Finite 10)"
    by (simp add: long_window_def eval_nat_numeral)
  have ne: "?mids \<noteq> []" by simp
  from window_nonempty [OF ne] s l
  have m: "mean (short_window ?mids) = Inr (Finite 10)"
    "mean (long_window ?mids) = Inr (Finite (13 / 4))"
    by (simp_all add: mean_def)
  have d: "decide_trade scenario_A trade_size =
       Inr \<lparr>direction = ''BUY'', size_dec = trade_size, reason = ''short_avg > long_avg''\<rparr>"
    using decide_mids_cases [OF ne, of trade_size] by (simp add: decide_trade_def e s l)
  have n: "length ?mids = 25" by simp
  show ?thesis by (rule conjI [OF e conjI [OF n conjI [OF w conjI [OF m(1) conjI [OF m(2) d]]]]])
qed

section \<open>The size of a decision\<close>

text \<open>
  C8, as stated, fails for a negative trade size: \<^verbatim>\<open>decide_trade\<close> copies
  \<^verbatim>\<open>trade_size\<close> into the decision without a check, so the falling series with trade
  size -1 gives a SELL of size -1.
\<close>

theorem negative_size_counterexample:
  "decide_mids falling (- 1) =
     Inr \<lparr>direction = ''SELL'', size_dec = - 1, reason = ''short_avg < long_avg''\<rparr>
   \<and> \<not> 0 \<le> size_dec \<lparr>direction = ''SELL'', size_dec = - 1, reason = ''short_avg < long_avg''\<rparr>"
  by (simp add: falling_sell)

text \<open>
  C8, amended. The size of every decision is 0 when its direction is NONE and the trade
  size otherwise; so it is not negative whenever the trade size is not negative.
\<close>

theorem decision_size:
  assumes "decide_mids mids trade_size = Inr d"
  shows "(direction d = ''NONE'' \<longrightarrow> size_dec d = 0)
       \<and> (direction d \<noteq> ''NONE'' \<longrightarrow> size_dec d = trade_size)
       \<and> (0 \<le> trade_size \<longrightarrow> 0 \<le> size_dec d)"
proof (cases "mids = []")
  case True
  with assms show ?thesis by (simp add: decide_mids_empty)
next
  case False
  from assms decide_mids_cases [OF False, of trade_size] show ?thesis
    by (auto split: if_splits)
qed

text \<open>The rising series with trade size 3: a BUY of size 3.\<close>

theorem decision_size_witness:
  "decide_mids rising 3 =
     Inr \<lparr>direction = ''BUY'', size_dec = 3, reason = ''short_avg > long_avg''\<rparr>
   \<and> size_dec \<lparr>direction = ''BUY'', size_dec = 3, reason = ''short_avg > long_avg''\<rparr> = 3
   \<and> (0 :: rat) \<le> 3"
  using decision_size [OF rising_buy [of 3]] by (simp add: rising_buy)

end
